theory Spec2Isabelle
  imports Main
begin

section \<open>Python values, exceptions and name lookup\<close>

text \<open>
  The plug-in \<^verbatim>\<open>podcast_rss.py\<close> is embedded function by function. An exception of
  the Python code is the \<open>Inl\<close> branch of a sum; a value is the \<open>Inr\<close> branch.
\<close>

datatype error = NameError string | KeyError string | TypeError string

text \<open>
  The dynamically typed values that pass through the configuration dictionary.
  \<open>PyObj\<close> is an opaque object (a module, a function, a class) known by its name;
  \<open>TranslatableSetting name inp translations\<close> is an instance of Nikola's class of that
  name, holding its constructor arguments.
\<close>

datatype pyval =
    PyNone
  | PyStr string
  | PyInt int
  | PyList "pyval list"
  | PyDict "(string \<times> pyval) list"
  | PyObj string
  | TranslatableSetting string pyval pyval

text \<open>Python's truth value of an object, as \<^verbatim>\<open>if x\<close> and \<^verbatim>\<open>x or y\<close> test it.\<close>

fun truthy :: "pyval \<Rightarrow> bool" where
  "truthy PyNone = False"
| "truthy (PyStr s) = (s \<noteq> [])"
| "truthy (PyInt i) = (i \<noteq> 0)"
| "truthy (PyList xs) = (xs \<noteq> [])"
| "truthy (PyDict kv) = (kv \<noteq> [])"
| "truthy (PyObj n) = True"
| "truthy (TranslatableSetting n inp tr) = True"

text \<open>Sequencing: the first exception raised ends the evaluation.\<close>

definition bindE :: "error + 'a \<Rightarrow> ('a \<Rightarrow> error + 'b) \<Rightarrow> error + 'b" where
  "bindE m f = (case m of Inl e \<Rightarrow> Inl e | Inr x \<Rightarrow> f x)"

text \<open>\<^verbatim>\<open>a or b\<close>: the value of \<open>a\<close> when it is true, otherwise \<open>b\<close> is evaluated.\<close>

definition py_or :: "error + pyval \<Rightarrow> error + pyval \<Rightarrow> error + pyval" where
  "py_or a b = bindE a (\<lambda>v. if truthy v then Inr v else b)"

text \<open>
  The names bound in the module's namespace once it is imported: its imports, its
  top-level functions and its class, in the order of the file. A name used in a function
  body that is neither a local of that function nor in this list (nor a builtin, and none
  of the names looked up below is one) raises \<^verbatim>\<open>NameError\<close>.
\<close>

definition module_globals :: "string list" where
  "module_globals =
     [''absolute_import'', ''print_function'', ''unicode_literals'', ''os'',
      ''urljoin'', ''urlparse'', ''requests'', ''FeedGenerator'', ''utils'',
      ''_nikola_enclosure'', ''Task'', ''TranslatableSetting'', ''micawber'',
      ''register'', ''providers'', ''get_enclosure_metadata'', ''get_enclosure_size'',
      ''get_enclosure_duration'', ''_enclosure'', ''GeneratePodcastRSS'', ''main'']"

definition load_global :: "string \<Rightarrow> error + pyval" where
  "load_global n = (if n \<in> set module_globals then Inr (PyObj n) else Inl (NameError n))"

section \<open>The libraries the plug-in calls\<close>

text \<open>An HTTP response, as far as the plug-in reads it: the headers.\<close>

record response =
  headers :: "(string \<times> pyval) list"

text \<open>\<^verbatim>\<open>headers.get(key, default)\<close>\<close>

definition headers_get :: "response \<Rightarrow> string \<Rightarrow> pyval \<Rightarrow> pyval" where
  "headers_get r k d = (case map_of (headers r) k of None \<Rightarrow> d | Some v \<Rightarrow> v)"

text \<open>A \<^verbatim>\<open>datetime\<close>: the instant and the zone it carries, if any.\<close>

record datetime =
  instant :: int
  tzinfo :: "string option"

text \<open>
  The functions of other packages are parameters of the model: \<open>urljoin\<close> with its
  positional arguments, \<open>requests_head\<close> with its two positional arguments,
  \<open>guess_type\<close> for the first component of \<^verbatim>\<open>mimetypes.guess_type\<close>, \<open>providers_request\<close>
  for the answer of the micawber provider registry, \<open>getattr\<close> for reading an attribute
  of an opaque object and \<open>astimezone\<close> for \<^verbatim>\<open>datetime.astimezone\<close>.
\<close>

record extern =
  urljoin :: "pyval list \<Rightarrow> error + pyval"
  requests_head :: "pyval \<Rightarrow> pyval \<Rightarrow> error + response"
  guess_type :: "string \<Rightarrow> pyval"
  providers_request :: "string \<Rightarrow> error + pyval"
  getattr :: "pyval \<Rightarrow> string \<Rightarrow> error + pyval"
  astimezone :: "datetime \<Rightarrow> pyval \<Rightarrow> error + datetime"

section \<open>Posts\<close>

text \<open>
  A post of the content source, as far as the plug-in reads it. \<open>post_meta\<close> is the
  per-language metadata; Nikola keeps it in a dictionary whose absent keys read as the
  empty string when subscripted, and as \<^verbatim>\<open>None\<close> through \<^verbatim>\<open>.get\<close>.
\<close>

record post =
  post_meta :: "string \<Rightarrow> (string \<times> string) list"
  post_title :: "string \<Rightarrow> string"
  post_description :: "string \<Rightarrow> string"
  post_text :: "string \<Rightarrow> pyval \<Rightarrow> pyval \<Rightarrow> pyval \<Rightarrow> pyval \<Rightarrow> string"
  post_permalink :: "string \<Rightarrow> string"
  post_author :: "string \<Rightarrow> string"
  post_date :: datetime

text \<open>\<^verbatim>\<open>post.meta[lang][key]\<close>, which is also \<^verbatim>\<open>post.meta(key, lang)\<close>\<close>

definition meta_item :: "post \<Rightarrow> string \<Rightarrow> string \<Rightarrow> string" where
  "meta_item p lang k = (case map_of (post_meta p lang) k of None \<Rightarrow> [] | Some v \<Rightarrow> v)"

text \<open>\<^verbatim>\<open>post.meta[lang].get(key)\<close>\<close>

definition meta_get :: "post \<Rightarrow> string \<Rightarrow> string \<Rightarrow> string option" where
  "meta_get p lang k = map_of (post_meta p lang) k"

section \<open>Enclosure metadata\<close>

text \<open>
  \<^verbatim>\<open>get_enclosure_metadata(url)\<close> asks the provider registry. The request is an effect:
  the list of the URLs requested so far is passed in and returned extended.
\<close>

definition get_enclosure_metadata ::
  "extern \<Rightarrow> string \<Rightarrow> string list \<Rightarrow> (error + pyval) \<times> string list" where
  "get_enclosure_metadata ext url requested = (providers_request ext url, requested @ [url])"

definition get_enclosure_duration ::
  "extern \<Rightarrow> string \<Rightarrow> string list \<Rightarrow> (error + pyval) \<times> string list" where
  "get_enclosure_duration ext url requested =
     (let data = get_enclosure_metadata ext url requested in data)"

text \<open>
  \<^verbatim>\<open>get_enclosure_size(url, default=0)\<close>. The argument of the request is evaluated first,
  from left to right: the globals \<^verbatim>\<open>requests\<close> and \<^verbatim>\<open>urljoin\<close>, the local \<^verbatim>\<open>base_url\<close>,
  then the names \<^verbatim>\<open>slug\<close> and \<^verbatim>\<open>name\<close>, which are no locals of the function.
\<close>

definition get_enclosure_size :: "extern \<Rightarrow> string \<Rightarrow> pyval \<Rightarrow> error + pyval" where
  "get_enclosure_size ext url dflt =
     (let base_url = ''https://archive.org/'' in
      bindE (load_global ''requests'') (\<lambda>_.
      bindE (load_global ''urljoin'') (\<lambda>_.
      bindE (load_global ''slug'') (\<lambda>slug.
      bindE (load_global ''name'') (\<lambda>name.
      bindE (urljoin ext [PyStr base_url, PyStr ''download'', slug, name]) (\<lambda>target.
      bindE (requests_head ext target (PyStr url)) (\<lambda>resp.
      Inr (headers_get resp ''content-length'' dflt))))))))"

text \<open>
  \<^verbatim>\<open>_enclosure(post, lang)\<close>: the triple of URL, length and MIME type, or \<^verbatim>\<open>None\<close> when
  the function falls off its end because the post has no enclosure.
\<close>

definition py_enclosure ::
  "extern \<Rightarrow> post \<Rightarrow> string \<Rightarrow> error + (string \<times> pyval \<times> pyval) option" where
  "py_enclosure ext p lang =
     (let enclosure = meta_item p lang ''enclosure'' in
      if enclosure \<noteq> [] then
        bindE (get_enclosure_size ext enclosure (PyInt 0)) (\<lambda>length.
        let url = enclosure in
        bindE (load_global ''mimetypes'') (\<lambda>_.
        let mime = guess_type ext url in
        Inr (Some (url, length, mime))))
      else Inr None)"

section \<open>Configuration\<close>

text \<open>The configuration is a dictionary from setting names to values.\<close>

type_synonym config = "string \<Rightarrow> pyval option"

text \<open>\<^verbatim>\<open>d[key]\<close> on the configuration\<close>

definition getitem :: "config \<Rightarrow> string \<Rightarrow> error + pyval" where
  "getitem d k = (case d k of None \<Rightarrow> Inl (KeyError k) | Some v \<Rightarrow> Inr v)"

text \<open>\<^verbatim>\<open>v[key]\<close> on a value, with a string as key\<close>

fun subscript :: "pyval \<Rightarrow> string \<Rightarrow> error + pyval" where
  "subscript (PyDict kv) k = (case map_of kv k of None \<Rightarrow> Inl (KeyError k) | Some v \<Rightarrow> Inr v)"
| "subscript v k = Inl (TypeError ''subscript'')"

text \<open>
  Calling a setting with a language, \<^verbatim>\<open>setting(lang)\<close>. For Nikola's
  \<^verbatim>\<open>TranslatableSetting\<close> made from a non-empty dictionary this is the value for the
  language, else the value for the default language (\<^verbatim>\<open>en\<close> when the dictionary has it,
  its first key otherwise); made from any other value, it is that value for every
  language. Other values of the configuration are not callable.
\<close>

fun call_setting :: "pyval \<Rightarrow> string \<Rightarrow> error + pyval" where
  "call_setting (TranslatableSetting n (PyDict (kv # kvs)) tr) lang =
     Inr (case map_of (kv # kvs) lang of
            Some v \<Rightarrow> v
          | None \<Rightarrow> (case map_of (kv # kvs) ''en'' of Some v \<Rightarrow> v | None \<Rightarrow> snd kv))"
| "call_setting (TranslatableSetting n inp tr) lang = Inr inp"
| "call_setting v lang = Inl (TypeError ''not callable'')"

text \<open>The defaults that \<^verbatim>\<open>set_site\<close> starts from.\<close>

definition default_config :: "(string \<times> pyval) list" where
  "default_config =
     [(''PODCAST_RSS_PATH'', PyStr ''podcast.xml''),
      (''PODCAST_POST_CATEGORY'', PyStr ''podcast''),
      (''PODCAST_CHANNEL_TITLE'', PyNone),
      (''PODCAST_CHANNEL_LINK'', PyNone),
      (''PODCAST_CHANNEL_DESCRIPTION'', PyNone),
      (''PODCAST_CHANNEL_AUTHOR'', PyNone),
      (''PODCAST_CHANNEL_CATEGORY'', PyNone),
      (''PODCAST_CHANNEL_LOGO'', PyNone)]"

text \<open>
  The loop of \<^verbatim>\<open>set_site\<close> over the suffixes: each named setting is replaced by a
  \<^verbatim>\<open>TranslatableSetting\<close> of its current value and the site's \<^verbatim>\<open>TRANSLATIONS\<close>.
\<close>

fun wrap_settings :: "string list \<Rightarrow> config \<Rightarrow> config \<Rightarrow> error + config" where
  "wrap_settings [] site_config config = Inr config"
| "wrap_settings (suffix # rest) site_config config =
     (let name = ''PODCAST_CHANNEL_'' @ suffix in
      bindE (getitem config name) (\<lambda>inp.
      bindE (getitem site_config ''TRANSLATIONS'') (\<lambda>tr.
      wrap_settings rest site_config (config(name \<mapsto> TranslatableSetting name inp tr)))))"

text \<open>
  \<^verbatim>\<open>set_site(site)\<close>, as far as it builds \<^verbatim>\<open>self.config\<close> from \<^verbatim>\<open>site.config\<close>: the
  defaults, updated with the site's configuration, then the three wrapped settings.
\<close>

definition set_site :: "config \<Rightarrow> error + config" where
  "set_site site_config =
     (let config = map_of default_config ++ site_config in
      wrap_settings [''CATEGORY'', ''DESCRIPTION'', ''TITLE''] site_config config)"

section \<open>Selecting the posts of a feed\<close>

text \<open>
  The list comprehension of \<^verbatim>\<open>gen_tasks\<close>: its condition is evaluated for each post in
  turn, so the category setting is looked up once per post.
\<close>

fun posts_in_category :: "config \<Rightarrow> string \<Rightarrow> post list \<Rightarrow> error + post list" where
  "posts_in_category cfg lang [] = Inr []"
| "posts_in_category cfg lang (p # ps) =
     bindE (getitem cfg ''PODCAST_POST_CATEGORY'') (\<lambda>category.
     bindE (posts_in_category cfg lang ps) (\<lambda>rest.
     Inr (if PyStr (meta_item p lang ''category'') = category then p # rest else rest)))"

text \<open>
  \<^verbatim>\<open>xs[:n]\<close>: all of the list for \<^verbatim>\<open>None\<close>, the first \<open>n\<close> elements for \<open>n \<ge> 0\<close>, all but
  the last \<open>-n\<close> for a negative \<open>n\<close>.
\<close>

fun slice_to :: "'a list \<Rightarrow> pyval \<Rightarrow> error + 'a list" where
  "slice_to xs PyNone = Inr xs"
| "slice_to xs (PyInt n) =
     Inr (if 0 \<le> n then take (nat n) xs else take (length xs - nat (- n)) xs)"
| "slice_to xs v = Inl (TypeError ''slice'')"

text \<open>The value bound to \<^verbatim>\<open>posts\<close> in \<^verbatim>\<open>gen_tasks\<close> for one language.\<close>

definition gen_tasks_posts :: "config \<Rightarrow> post list \<Rightarrow> string \<Rightarrow> error + post list" where
  "gen_tasks_posts cfg site_posts lang =
     bindE (posts_in_category cfg lang site_posts) (\<lambda>matching.
     bindE (getitem cfg ''FEED_LENGTH'') (\<lambda>n.
     slice_to matching n))"

section \<open>The path of the feed\<close>

definition rss_path :: "config \<Rightarrow> string \<Rightarrow> string \<Rightarrow> error + pyval list" where
  "rss_path config name lang =
     bindE (getitem config ''TRANSLATIONS'') (\<lambda>translations.
     bindE (subscript translations lang) (\<lambda>prefix.
     bindE (getitem config ''PODCAST_RSS_PATH'') (\<lambda>path.
     Inr (filter truthy [prefix, path]))))"

section \<open>The feed document\<close>

text \<open>
  The feed generator is modelled by the values the plug-in hands to it: a field is
  \<open>None\<close> (or empty) until the plug-in calls its setter. \<open>fe_enclosure\<close> is the
  enclosure of an entry: URL, length and type.
\<close>

record link =
  link_href :: pyval
  link_title :: "pyval option"
  link_rel :: string

record feed_entry =
  fe_title :: "string option"
  fe_content :: "string option"
  fe_summary :: "string option"
  fe_link :: "(string \<times> string) option"
  fe_published :: "datetime option"
  fe_author :: "(string \<times> string option) option"
  fe_enclosure :: "(string \<times> pyval \<times> pyval) option"

record feed =
  fg_extensions :: "string list"
  fg_id :: "string option"
  fg_title :: "pyval option"
  fg_links :: "link list"
  fg_description :: "pyval option"
  fg_author :: "pyval option"
  fg_language :: "string option"
  fg_generator :: "(string \<times> string) option"
  fg_category :: "string option"
  fg_itunes_category :: "pyval list"
  fg_icon :: "pyval option"
  fg_logo :: "pyval option"
  fg_entries :: "feed_entry list"

text \<open>\<^verbatim>\<open>FeedGenerator()\<close>: a feed with nothing set.\<close>

definition FeedGenerator :: feed where
  "FeedGenerator =
     \<lparr>fg_extensions = [], fg_id = None, fg_title = None, fg_links = [],
      fg_description = None, fg_author = None, fg_language = None, fg_generator = None,
      fg_category = None, fg_itunes_category = [], fg_icon = None, fg_logo = None,
      fg_entries = []\<rparr>"

text \<open>
  \<^verbatim>\<open>fg.add_entry()\<close> makes an entry with nothing set; feedgen puts a new entry in
  front of the entries already there.
\<close>

definition new_entry :: feed_entry where
  "new_entry =
     \<lparr>fe_title = None, fe_content = None, fe_summary = None, fe_link = None,
      fe_published = None, fe_author = None, fe_enclosure = None\<rparr>"

definition add_entry :: "feed_entry \<Rightarrow> feed \<Rightarrow> feed" where
  "add_entry fe fg = fg\<lparr>fg_entries := fe # fg_entries fg\<rparr>"

section \<open>Rendering the feed\<close>

text \<open>The items of a value that is iterated over (a list, a string, a dictionary).\<close>

fun iter_items :: "pyval \<Rightarrow> error + pyval list" where
  "iter_items (PyList vs) = Inr vs"
| "iter_items (PyStr s) = Inr (map (\<lambda>c. PyStr [c]) s)"
| "iter_items (PyDict kv) = Inr (map (\<lambda>e. PyStr (fst e)) kv)"
| "iter_items v = Inl (TypeError ''not iterable'')"

text \<open>\<^verbatim>\<open>sep.join(items)\<close>, which wants every item to be a string\<close>

fun join :: "string \<Rightarrow> pyval list \<Rightarrow> error + string" where
  "join sep [] = Inr []"
| "join sep [PyStr s] = Inr s"
| "join sep (PyStr s # v # vs) = bindE (join sep (v # vs)) (\<lambda>r. Inr (s @ sep @ r))"
| "join sep (v # vs) = Inl (TypeError ''join'')"

text \<open>The channel title, line 146.\<close>

definition channel_title :: "config \<Rightarrow> string \<Rightarrow> error + pyval" where
  "channel_title cfg lang =
     py_or (bindE (getitem cfg ''PODCAST_CHANNEL_TITLE'') (\<lambda>s. call_setting s lang))
           (bindE (getitem cfg ''BLOG_TITLE'') (\<lambda>s. call_setting s lang))"

text \<open>The target of the channel's link, line 149.\<close>

definition channel_link :: "config \<Rightarrow> error + pyval" where
  "channel_link cfg = py_or (getitem cfg ''PODCAST_CHANNEL_LINK'') (getitem cfg ''SITE_URL'')"

text \<open>The channel description, lines 152 and 153.\<close>

definition channel_description :: "config \<Rightarrow> string \<Rightarrow> error + pyval" where
  "channel_description cfg lang =
     py_or (bindE (getitem cfg ''PODCAST_CHANNEL_DESCRIPTION'') (\<lambda>s. call_setting s lang))
           (bindE (getitem cfg ''BLOG_DESCRIPTION'') (\<lambda>s. call_setting s lang))"

text \<open>The channel author, lines 154 and 155.\<close>

definition channel_author :: "config \<Rightarrow> string \<Rightarrow> error + pyval" where
  "channel_author cfg lang =
     py_or (getitem cfg ''PODCAST_CHANNEL_AUTHOR'')
           (bindE (bindE (getitem cfg ''BLOG_AUTHOR'') (\<lambda>s. call_setting s lang)) (\<lambda>name.
            bindE (getitem cfg ''BLOG_EMAIL'') (\<lambda>email.
            Inr (PyDict [(''name'', name), (''email'', email)]))))"

text \<open>The channel category, lines 160 to 162.\<close>

definition channel_category :: "config \<Rightarrow> string \<Rightarrow> feed \<Rightarrow> error + feed" where
  "channel_category cfg lang fg =
     bindE (bindE (getitem cfg ''PODCAST_CHANNEL_CATEGORY'') (\<lambda>s. call_setting s lang))
       (\<lambda>category.
     if truthy category then
       bindE (iter_items category) (\<lambda>items.
       bindE (join ''/'' items) (\<lambda>joined.
       Inr (fg\<lparr>fg_category := Some joined, fg_itunes_category := items\<rparr>)))
     else Inr fg)"

text \<open>The channel logo, lines 164 to 166.\<close>

definition channel_logo :: "config \<Rightarrow> feed \<Rightarrow> error + feed" where
  "channel_logo cfg fg =
     bindE (py_or (getitem cfg ''PODCAST_CHANNEL_LOGO'') (getitem cfg ''LOGO_URL''))
       (\<lambda>logo.
     if truthy logo then Inr (fg\<lparr>fg_icon := Some logo, fg_logo := Some logo\<rparr>)
     else Inr fg)"

text \<open>\<^verbatim>\<open>get_author_info(post, lang)\<close>\<close>

definition get_author_info :: "post \<Rightarrow> string \<Rightarrow> string \<times> string option" where
  "get_author_info p lang = (post_author p lang, meta_get p lang ''email'')"

text \<open>
  The argument of \<^verbatim>\<open>fe.published\<close>, lines 182 and 183. The name \<^verbatim>\<open>site\<close> is no local
  of \<^verbatim>\<open>render_podcast_rss\<close>, so it is looked up among the globals.
\<close>

definition published :: "extern \<Rightarrow> post \<Rightarrow> error + datetime" where
  "published ext p =
     (if tzinfo (post_date p) \<noteq> None then Inr (post_date p)
      else bindE (load_global ''site'') (\<lambda>site.
           bindE (getattr ext site ''tzinfo'') (\<lambda>tz.
           astimezone ext (post_date p) tz)))"

text \<open>The body of the loop over the posts, lines 169 to 186.\<close>

definition render_entry :: "extern \<Rightarrow> config \<Rightarrow> string \<Rightarrow> post \<Rightarrow> feed \<Rightarrow> error + feed" where
  "render_entry ext cfg lang p fg =
     bindE (getitem cfg ''FEED_TEASERS'') (\<lambda>teaser_only.
     bindE (getitem cfg ''FEED_PLAIN'') (\<lambda>strip_html.
     bindE (getitem cfg ''FEED_READ_MORE_LINK'') (\<lambda>feed_read_more_link.
     bindE (getitem cfg ''FEED_LINKS_APPEND_QUERY'') (\<lambda>feed_links_append_query.
     let content = post_text p lang teaser_only strip_html feed_read_more_link
                     feed_links_append_query;
         link = post_permalink p lang;
         (author_name, author_email) = get_author_info p lang;
         fe = new_entry\<lparr>fe_title := Some (post_title p lang),
                fe_content := Some content,
                fe_summary := Some (post_description p lang),
                fe_link := Some (link, ''alternate'')\<rparr> in
     bindE (published ext p) (\<lambda>d.
     let fe = fe\<lparr>fe_published := Some d\<rparr>;
         fe = (if author_name \<noteq> [] \<or> (author_email \<noteq> None \<and> author_email \<noteq> Some [])
               then fe\<lparr>fe_author := Some (author_name, author_email)\<rparr> else fe) in
     Inr (add_entry fe fg))))))"

fun render_entries :: "extern \<Rightarrow> config \<Rightarrow> string \<Rightarrow> post list \<Rightarrow> feed \<Rightarrow> error + feed" where
  "render_entries ext cfg lang [] fg = Inr fg"
| "render_entries ext cfg lang (p # ps) fg =
     bindE (render_entry ext cfg lang p fg) (\<lambda>fg'. render_entries ext cfg lang ps fg')"

text \<open>
  \<^verbatim>\<open>render_podcast_rss(lang, posts, output_name, feed_url)\<close>: the document that
  \<^verbatim>\<open>fg.rss_file\<close> writes to \<open>output_name\<close>, or the exception raised on the way.
\<close>

definition render_podcast_rss ::
  "extern \<Rightarrow> config \<Rightarrow> string \<Rightarrow> post list \<Rightarrow> string \<Rightarrow> string \<Rightarrow> error + feed" where
  "render_podcast_rss ext cfg lang posts output_name feed_url =
     (let fg = FeedGenerator\<lparr>fg_extensions := [''podcast'']\<rparr> in
      bindE (channel_title cfg lang) (\<lambda>title.
      let fg = fg\<lparr>fg_id := Some feed_url, fg_title := Some title\<rparr> in
      bindE (channel_link cfg) (\<lambda>href.
      let fg = fg\<lparr>fg_links := fg_links fg @
                 [\<lparr>link_href = href, link_title = Some title, link_rel = ''alternate''\<rparr>,
                  \<lparr>link_href = PyStr feed_url, link_title = None, link_rel = ''self''\<rparr>]\<rparr> in
      bindE (channel_description cfg lang) (\<lambda>description.
      bindE (channel_author cfg lang) (\<lambda>author.
      let fg = fg\<lparr>fg_description := Some description, fg_author := Some author,
                 fg_language := Some lang,
                 fg_generator := Some (''Nikola Podcast RSS Plug-in'',
                                       ''https://plugins.getnikola.com/#podcast_rss'')\<rparr> in
      bindE (channel_category cfg lang fg) (\<lambda>fg.
      bindE (channel_logo cfg fg) (\<lambda>fg.
      render_entries ext cfg lang posts fg)))))))"

section \<open>Episodes without required data, in the words of the specification\<close>

text \<open>
  The specification calls an episode malformed when its required title or permalink is
  missing. The code has no such notion; this predicate is the specification's, stated
  here to compare the code with it.
\<close>

definition spec_well_formed :: "string \<Rightarrow> post \<Rightarrow> bool" where
  "spec_well_formed lang p = (post_title p lang \<noteq> [] \<and> post_permalink p lang \<noteq> [])"

section \<open>Example data\<close>

text \<open>Library functions that answer without raising; the response has no headers.\<close>

definition example_extern :: extern where
  "example_extern =
     \<lparr>urljoin = (\<lambda>args. Inr (PyStr ''https://archive.org/download'')),
      requests_head = (\<lambda>target url. Inr \<lparr>headers = []\<rparr>),
      guess_type = (\<lambda>url. PyNone),
      providers_request = (\<lambda>url. Inr PyNone),
      getattr = (\<lambda>obj attr. Inr (PyStr ''UTC'')),
      astimezone = (\<lambda>d tz. Inr d)\<rparr>"

definition example_translations :: pyval where
  "example_translations = PyDict [(''en'', PyStr []), (''de'', PyStr ''de'')]"

text \<open>A configuration as \<^verbatim>\<open>set_site\<close> leaves it, with no override of a channel field.\<close>

definition example_config :: config where
  "example_config = map_of
     [(''TRANSLATIONS'', example_translations),
      (''PODCAST_RSS_PATH'', PyStr ''podcast.xml''),
      (''PODCAST_POST_CATEGORY'', PyStr ''podcast''),
      (''PODCAST_CHANNEL_TITLE'',
         TranslatableSetting ''PODCAST_CHANNEL_TITLE'' PyNone example_translations),
      (''PODCAST_CHANNEL_LINK'', PyNone),
      (''PODCAST_CHANNEL_DESCRIPTION'',
         TranslatableSetting ''PODCAST_CHANNEL_DESCRIPTION'' PyNone example_translations),
      (''PODCAST_CHANNEL_AUTHOR'', PyNone),
      (''PODCAST_CHANNEL_CATEGORY'',
         TranslatableSetting ''PODCAST_CHANNEL_CATEGORY'' PyNone example_translations),
      (''PODCAST_CHANNEL_LOGO'', PyNone),
      (''BLOG_TITLE'', TranslatableSetting ''BLOG_TITLE'' (PyStr ''Demo'') example_translations),
      (''BLOG_DESCRIPTION'',
         TranslatableSetting ''BLOG_DESCRIPTION'' (PyStr ''A demo site'') example_translations),
      (''BLOG_AUTHOR'', TranslatableSetting ''BLOG_AUTHOR'' (PyStr ''Jo'') example_translations),
      (''BLOG_EMAIL'', PyStr ''jo@example.org''),
      (''SITE_URL'', PyStr ''https://example.org/''),
      (''LOGO_URL'', PyNone),
      (''FEED_LENGTH'', PyInt 5),
      (''FEED_TEASERS'', PyInt 0),
      (''FEED_PLAIN'', PyInt 0),
      (''FEED_READ_MORE_LINK'', PyStr ''more''),
      (''FEED_LINKS_APPEND_QUERY'', PyNone)]"

text \<open>The same configuration with a channel author that has a name and no e-mail.\<close>

definition name_only_config :: config where
  "name_only_config =
     example_config(''PODCAST_CHANNEL_AUTHOR'' \<mapsto> PyDict [(''name'', PyStr ''Host'')])"

text \<open>A site configuration that sets the languages and nothing else.\<close>

definition bare_site_config :: config where
  "bare_site_config = map_of [(''TRANSLATIONS'', example_translations)]"

text \<open>A post with a title, a category, a permalink, an enclosure and a zone.\<close>

definition example_post ::
  "string \<Rightarrow> string \<Rightarrow> string \<Rightarrow> string \<Rightarrow> string option \<Rightarrow> post" where
  "example_post t category link enclosure tz =
     \<lparr>post_meta = (\<lambda>lang. [(''category'', category), (''enclosure'', enclosure)]),
      post_title = (\<lambda>lang. t),
      post_description = (\<lambda>lang. []),
      post_text = (\<lambda>lang teaser_only strip_html more query. t),
      post_permalink = (\<lambda>lang. link),
      post_author = (\<lambda>lang. []),
      post_date = \<lparr>instant = 0, tzinfo = tz\<rparr>\<rparr>"

definition example_episode :: post where
  "example_episode =
     example_post ''Episode 1'' ''podcast'' ''https://example.org/ep1/''
       ''https://archive.org/download/show/ep1.mp3'' (Some ''UTC'')"

text \<open>An episode whose enclosure has an extension that no type is known for.\<close>

definition example_unknown_type :: post where
  "example_unknown_type =
     example_post ''Episode 5'' ''podcast'' ''https://example.org/ep5/''
       ''https://archive.org/download/show/ep5.xyz'' (Some ''UTC'')"

text \<open>An episode whose date carries no zone.\<close>

definition example_naive :: post where
  "example_naive =
     example_post ''Episode 2'' ''podcast'' ''https://example.org/ep2/'' [] None"

text \<open>An episode without a permalink.\<close>

definition example_malformed :: post where
  "example_malformed = example_post ''Episode 3'' ''podcast'' [] [] (Some ''UTC'')"

definition three_posts :: "post list" where
  "three_posts =
     [example_episode, example_malformed,
      example_post ''Episode 4'' ''podcast'' ''https://example.org/ep4/'' [] (Some ''UTC'')]"



definition numbered_post :: "string \<Rightarrow> string \<Rightarrow> post" where
  "numbered_post t category =
     example_post t category ''https://example.org/post/'' [] (Some ''UTC'')"

text \<open>Seven posts of the category \<^verbatim>\<open>podcast\<close> among two of other categories.\<close>

definition seven_matching :: "post list" where
  "seven_matching =
     [numbered_post ''1'' ''podcast'', numbered_post ''2'' ''podcast'',
      numbered_post ''x'' ''Podcast'', numbered_post ''3'' ''podcast'',
      numbered_post ''4'' ''podcast'', numbered_post ''5'' ''podcast'',
      numbered_post ''y'' ''blog'', numbered_post ''6'' ''podcast'',
      numbered_post ''7'' ''podcast'']"

text \<open>The value of a setting in the site's configuration, \<^verbatim>\<open>None\<close> when it is not set.\<close>

definition site_or_none :: "config \<Rightarrow> string \<Rightarrow> pyval" where
  "site_or_none site_config k = (case site_config k of None \<Rightarrow> PyNone | Some v \<Rightarrow> v)"

section \<open>Basic facts\<close>

lemma bindE_Inl [simp]: "bindE (Inl e) f = Inl e"
  by (simp add: bindE_def)

lemma bindE_Inr [simp]: "bindE (Inr x) f = f x"
  by (simp add: bindE_def)

lemma load_global_bound:
  "load_global ''requests'' = Inr (PyObj ''requests'')"
  "load_global ''urljoin'' = Inr (PyObj ''urljoin'')"
  by (simp_all add: load_global_def module_globals_def)

lemma load_global_unbound:
  "load_global ''slug'' = Inl (NameError ''slug'')"
  "load_global ''mimetypes'' = Inl (NameError ''mimetypes'')"
  "load_global ''site'' = Inl (NameError ''site'')"
  by (simp_all add: load_global_def module_globals_def)

lemma example_config_at:
  "example_config ''TRANSLATIONS'' = Some example_translations"
  "example_config ''PODCAST_RSS_PATH'' = Some (PyStr ''podcast.xml'')"
  "example_config ''PODCAST_POST_CATEGORY'' = Some (PyStr ''podcast'')"
  "example_config ''PODCAST_CHANNEL_TITLE'' =
     Some (TranslatableSetting ''PODCAST_CHANNEL_TITLE'' PyNone example_translations)"
  "example_config ''PODCAST_CHANNEL_LINK'' = Some PyNone"
  "example_config ''PODCAST_CHANNEL_DESCRIPTION'' =
     Some (TranslatableSetting ''PODCAST_CHANNEL_DESCRIPTION'' PyNone example_translations)"
  "example_config ''PODCAST_CHANNEL_AUTHOR'' = Some PyNone"
  "example_config ''PODCAST_CHANNEL_CATEGORY'' =
     Some (TranslatableSetting ''PODCAST_CHANNEL_CATEGORY'' PyNone example_translations)"
  "example_config ''PODCAST_CHANNEL_LOGO'' = Some PyNone"
  "example_config ''BLOG_TITLE'' =
     Some (TranslatableSetting ''BLOG_TITLE'' (PyStr ''Demo'') example_translations)"
  "example_config ''BLOG_DESCRIPTION'' =
     Some (TranslatableSetting ''BLOG_DESCRIPTION'' (PyStr ''A demo site'') example_translations)"
  "example_config ''BLOG_AUTHOR'' =
     Some (TranslatableSetting ''BLOG_AUTHOR'' (PyStr ''Jo'') example_translations)"
  "example_config ''BLOG_EMAIL'' = Some (PyStr ''jo@example.org'')"
  "example_config ''SITE_URL'' = Some (PyStr ''https://example.org/'')"
  "example_config ''LOGO_URL'' = Some PyNone"
  "example_config ''FEED_LENGTH'' = Some (PyInt 5)"
  "example_config ''FEED_TEASERS'' = Some (PyInt 0)"
  "example_config ''FEED_PLAIN'' = Some (PyInt 0)"
  "example_config ''FEED_READ_MORE_LINK'' = Some (PyStr ''more'')"
  "example_config ''FEED_LINKS_APPEND_QUERY'' = Some PyNone"
  by (simp_all add: example_config_def)

lemmas example_posts =
  example_post_def example_episode_def example_naive_def example_malformed_def
  example_unknown_type_def three_posts_def example_extern_def

lemmas render_defs =
  render_podcast_rss_def channel_title_def channel_link_def channel_description_def
  channel_author_def channel_category_def channel_logo_def py_or_def getitem_def
  render_entry_def published_def get_author_info_def meta_get_def add_entry_def
  new_entry_def FeedGenerator_def Let_def

section \<open>What the loop over the posts adds to the feed\<close>

lemma render_entry_result:
  assumes "render_entry ext cfg lang p fg = Inr fg'"
  shows "\<exists>e. fg' = add_entry e fg \<and> fe_title e = Some (post_title p lang)
            \<and> fe_link e = Some (post_permalink p lang, ''alternate'')
            \<and> fe_enclosure e = None"
  using assms
  by (auto simp: render_entry_def bindE_def Let_def new_entry_def get_author_info_def
      split: sum.splits if_splits)

lemma render_entries_result:
  "render_entries ext cfg lang posts fg = Inr fg' \<Longrightarrow>
   (\<exists>es. fg' = fg\<lparr>fg_entries := es @ fg_entries fg\<rparr>
      \<and> map fe_title es = rev (map (\<lambda>p. Some (post_title p lang)) posts)
      \<and> map fe_link es = rev (map (\<lambda>p. Some (post_permalink p lang, ''alternate'')) posts)
      \<and> list_all (\<lambda>e. fe_enclosure e = None) es)"
proof (induction posts arbitrary: fg)
  case Nil
  then show ?case by simp
next
  case (Cons p ps)
  from Cons.prems obtain fg1 where
    step: "render_entry ext cfg lang p fg = Inr fg1" and
    rest: "render_entries ext cfg lang ps fg1 = Inr fg'"
    by (auto simp: bindE_def split: sum.splits)
  from render_entry_result [OF step] obtain e where
    e: "fg1 = add_entry e fg" "fe_title e = Some (post_title p lang)"
       "fe_link e = Some (post_permalink p lang, ''alternate'')" "fe_enclosure e = None"
    by blast
  from Cons.IH [OF rest] obtain es where
    es: "fg' = fg1\<lparr>fg_entries := es @ fg_entries fg1\<rparr>"
        "map fe_title es = rev (map (\<lambda>p. Some (post_title p lang)) ps)"
        "map fe_link es = rev (map (\<lambda>p. Some (post_permalink p lang, ''alternate'')) ps)"
        "list_all (\<lambda>e. fe_enclosure e = None) es"
    by blast
  show ?case
    by (rule exI [of _ "es @ [e]"]) (simp add: e es add_entry_def)
qed

lemma render_entries_pairs:
  "render_entries ext cfg lang posts fg = Inr fg' \<Longrightarrow>
   map (\<lambda>e. (fe_title e, fe_link e)) (fg_entries fg') =
     rev (map (\<lambda>p. (Some (post_title p lang), Some (post_permalink p lang, ''alternate'')))
            posts)
     @ map (\<lambda>e. (fe_title e, fe_link e)) (fg_entries fg)"
proof (induction posts arbitrary: fg)
  case Nil
  then show ?case by simp
next
  case (Cons p ps)
  from Cons.prems obtain fg1 where
    step: "render_entry ext cfg lang p fg = Inr fg1" and
    rest: "render_entries ext cfg lang ps fg1 = Inr fg'"
    by (auto simp: bindE_def split: sum.splits)
  from render_entry_result [OF step] obtain e where
    e: "fg1 = add_entry e fg" "fe_title e = Some (post_title p lang)"
       "fe_link e = Some (post_permalink p lang, ''alternate'')"
    by blast
  from Cons.IH [OF rest] e show ?case
    by (simp add: add_entry_def)
qed

lemma channel_category_keeps:
  "channel_category cfg lang fg = Inr fg' \<Longrightarrow>
   fg_entries fg' = fg_entries fg \<and> fg_author fg' = fg_author fg"
  by (auto simp: channel_category_def bindE_def split: sum.splits if_splits)

lemma channel_logo_keeps:
  "channel_logo cfg fg = Inr fg' \<Longrightarrow>
   fg_entries fg' = fg_entries fg \<and> fg_author fg' = fg_author fg"
  by (auto simp: channel_logo_def bindE_def split: sum.splits if_splits)

lemma render_podcast_rss_parts:
  assumes "render_podcast_rss ext cfg lang posts output_name feed_url = Inr doc"
  shows "\<exists>fg author. channel_author cfg lang = Inr author \<and> fg_author fg = Some author
           \<and> fg_entries fg = [] \<and> render_entries ext cfg lang posts fg = Inr doc"
proof -
  from assms obtain title href description author fg1 fg2 where
    a: "channel_author cfg lang = Inr author" and
    c: "channel_category cfg lang
          (FeedGenerator\<lparr>fg_extensions := [''podcast''], fg_id := Some feed_url,
             fg_title := Some title,
             fg_links := fg_links FeedGenerator @
               [\<lparr>link_href = href, link_title = Some title, link_rel = ''alternate''\<rparr>,
                \<lparr>link_href = PyStr feed_url, link_title = None, link_rel = ''self''\<rparr>],
             fg_description := Some description, fg_author := Some author,
             fg_language := Some lang,
             fg_generator := Some (''Nikola Podcast RSS Plug-in'',
                                   ''https://plugins.getnikola.com/#podcast_rss'')\<rparr>) = Inr fg1" and
    l: "channel_logo cfg fg1 = Inr fg2" and
    r: "render_entries ext cfg lang posts fg2 = Inr doc"
    by (auto simp: render_podcast_rss_def bindE_def Let_def split: sum.splits)
  from channel_category_keeps [OF c] channel_logo_keeps [OF l]
  have "fg_author fg2 = Some author" "fg_entries fg2 = []"
    by (simp_all add: FeedGenerator_def)
  with a r show ?thesis by blast
qed

text \<open>The example feeds are rendered without an exception.\<close>

lemma example_feed_rendered:
  "render_podcast_rss example_extern example_config ''en'' [example_episode]
     ''output/podcast.xml'' ''https://example.org/podcast.xml''
   = Inr (projr (render_podcast_rss example_extern example_config ''en'' [example_episode]
     ''output/podcast.xml'' ''https://example.org/podcast.xml''))"
  by (simp add: render_defs example_posts example_config_at)

lemma three_posts_rendered:
  "render_podcast_rss example_extern example_config ''en'' three_posts
     ''output/podcast.xml'' ''https://example.org/podcast.xml''
   = Inr (projr (render_podcast_rss example_extern example_config ''en'' three_posts
     ''output/podcast.xml'' ''https://example.org/podcast.xml''))"
  by (simp add: render_defs example_posts example_config_at)

lemma name_only_feed_rendered:
  "render_podcast_rss example_extern name_only_config ''en'' [example_episode]
     ''output/podcast.xml'' ''https://example.org/podcast.xml''
   = Inr (projr (render_podcast_rss example_extern name_only_config ''en'' [example_episode]
     ''output/podcast.xml'' ''https://example.org/podcast.xml''))"
  by (simp add: render_defs example_posts example_config_at name_only_config_def)


section \<open>Rendering consults no lookup\<close>




section \<open>Selecting posts\<close>

lemma posts_in_category_filter:
  "cfg ''PODCAST_POST_CATEGORY'' = Some (PyStr category) \<Longrightarrow>
   posts_in_category cfg lang posts =
     Inr (filter (\<lambda>p. meta_item p lang ''category'' = category) posts)"
  by (induction posts) (simp_all add: getitem_def)

section \<open>The configuration that \<open>set_site\<close> builds\<close>

lemma set_site_result:
  assumes "site_config ''TRANSLATIONS'' = Some tr"
  shows "set_site site_config =
           Inr ((map_of default_config ++ site_config)
                  (''PODCAST_CHANNEL_CATEGORY'' \<mapsto>
                     TranslatableSetting ''PODCAST_CHANNEL_CATEGORY''
                       (site_or_none site_config ''PODCAST_CHANNEL_CATEGORY'') tr,
                   ''PODCAST_CHANNEL_DESCRIPTION'' \<mapsto>
                     TranslatableSetting ''PODCAST_CHANNEL_DESCRIPTION''
                       (site_or_none site_config ''PODCAST_CHANNEL_DESCRIPTION'') tr,
                   ''PODCAST_CHANNEL_TITLE'' \<mapsto>
                     TranslatableSetting ''PODCAST_CHANNEL_TITLE''
                       (site_or_none site_config ''PODCAST_CHANNEL_TITLE'') tr))"
  using assms
  by (simp add: set_site_def getitem_def default_config_def map_add_def Let_def
      site_or_none_def split: option.splits)

lemma title_missing:
  assumes "site_config ''PODCAST_CHANNEL_TITLE'' = None" and "site_config ''BLOG_TITLE'' = None"
  shows "channel_title ((map_of default_config ++ site_config)
                  (''PODCAST_CHANNEL_CATEGORY'' \<mapsto> c,
                   ''PODCAST_CHANNEL_DESCRIPTION'' \<mapsto> d,
                   ''PODCAST_CHANNEL_TITLE'' \<mapsto>
                     TranslatableSetting ''PODCAST_CHANNEL_TITLE''
                       (site_or_none site_config ''PODCAST_CHANNEL_TITLE'') tr)) lang
          = Inl (KeyError ''BLOG_TITLE'')"
  using assms
  by (simp add: channel_title_def py_or_def getitem_def map_add_def default_config_def
      site_or_none_def)

section \<open>The size of an enclosure\<close>

text \<open>
  Claim C1. When the size lookup for an enclosure fails, or the response has no
  content-length header, \<open>get_enclosure_size\<close> is to return the default length 0.
  The code does not get that far: for every URL, every default and every behaviour of the
  libraries, evaluating the argument of the request raises \<^verbatim>\<open>NameError\<close> for the name
  \<^verbatim>\<open>slug\<close>, before any request is made and before the header is read.
\<close>

theorem get_enclosure_size_raises:
  "get_enclosure_size ext url dflt = Inl (NameError ''slug'')"
  by (simp add: get_enclosure_size_def load_global_bound load_global_unbound)

section \<open>Enclosures in the feed\<close>

text \<open>
  Claim C2. An entry is to carry an enclosure element exactly when its episode has an
  enclosure reference. In the code no entry of a rendered feed carries an enclosure,
  whatever the episodes refer to: \<open>render_podcast_rss\<close> never calls \<open>py_enclosure\<close>
  and never sets the enclosure of an entry.
\<close>

theorem entries_without_enclosure:
  assumes "render_podcast_rss ext cfg lang posts output_name feed_url = Inr doc"
  shows "list_all (\<lambda>e. fe_enclosure e = None) (fg_entries doc)"
proof -
  from render_podcast_rss_parts [OF assms] obtain fg where
    fg: "fg_entries fg = []" "render_entries ext cfg lang posts fg = Inr doc"
    by blast
  from render_entries_result [OF fg(2)] fg(1) show ?thesis
    by auto
qed

theorem entries_without_enclosure_witness:
  "meta_item example_episode ''en'' ''enclosure'' = ''https://archive.org/download/show/ep1.mp3''
   \<and> \<not> isl (render_podcast_rss example_extern example_config ''en'' [example_episode]
        ''output/podcast.xml'' ''https://example.org/podcast.xml'')
   \<and> list_all (\<lambda>e. fe_enclosure e = None)
        (fg_entries (projr (render_podcast_rss example_extern example_config ''en''
           [example_episode] ''output/podcast.xml'' ''https://example.org/podcast.xml'')))"
proof -
  note r = example_feed_rendered
  have m: "meta_item example_episode ''en'' ''enclosure''
             = ''https://archive.org/download/show/ep1.mp3''"
    by (simp add: meta_item_def example_posts)
  from r have i: "\<not> isl (render_podcast_rss example_extern example_config ''en''
        [example_episode] ''output/podcast.xml'' ''https://example.org/podcast.xml'')"
    by (metis sum.disc(2))
  from m i entries_without_enclosure [OF r] show ?thesis by blast
qed

section \<open>Lookups while a feed is rendered\<close>



section \<open>The type of an enclosure\<close>

text \<open>
  Claim C4. Inferring the MIME type of an enclosure is to be total, an unknown extension
  giving an unknown type and no error. In the code \<open>py_enclosure\<close> raises for the
  episode whose enclosure ends in \<^verbatim>\<open>.xyz\<close>: the size lookup before it raises, and the
  name \<^verbatim>\<open>mimetypes\<close> that the inference uses is not bound in the module either.
\<close>

theorem enclosure_type_raises:
  "py_enclosure example_extern example_unknown_type ''en'' = Inl (NameError ''slug'')
   \<and> load_global ''mimetypes'' = Inl (NameError ''mimetypes'')"
  by (simp add: py_enclosure_def meta_item_def example_posts get_enclosure_size_def
      load_global_bound load_global_unbound)

section \<open>The episodes of a feed\<close>

text \<open>
  Claim C5. For every list of posts, language, category string and maximum count (a
  count is not negative), the posts selected for the feed are exactly those whose
  category for the language equals the configured string, in the order of the list, cut
  to the first \<open>max_count\<close>; no match gives the empty list and no error.
\<close>

theorem gen_tasks_posts_selects:
  assumes "cfg ''PODCAST_POST_CATEGORY'' = Some (PyStr category)"
    and "cfg ''FEED_LENGTH'' = Some (PyInt max_count)"
    and "0 \<le> max_count"
  shows "gen_tasks_posts cfg site_posts lang =
           Inr (take (nat max_count)
                  (filter (\<lambda>p. meta_item p lang ''category'' = category) site_posts))"
  using assms
  by (simp add: gen_tasks_posts_def posts_in_category_filter getitem_def)

theorem gen_tasks_posts_selects_witness:
  "example_config ''PODCAST_POST_CATEGORY'' = Some (PyStr ''podcast'')
   \<and> example_config ''FEED_LENGTH'' = Some (PyInt 5)
   \<and> (0::int) \<le> 5
   \<and> gen_tasks_posts example_config seven_matching ''en'' =
       Inr [numbered_post ''1'' ''podcast'', numbered_post ''2'' ''podcast'',
            numbered_post ''3'' ''podcast'', numbered_post ''4'' ''podcast'',
            numbered_post ''5'' ''podcast'']
   \<and> gen_tasks_posts example_config [numbered_post ''y'' ''blog''] ''en'' = Inr []"
proof -
  have c: "example_config ''PODCAST_POST_CATEGORY'' = Some (PyStr ''podcast'')"
    by (simp add: example_config_at)
  have n: "example_config ''FEED_LENGTH'' = Some (PyInt 5)"
    by (simp add: example_config_at)
  have z: "(0::int) \<le> 5" by simp
  have m: "\<And>t c. meta_item (numbered_post t c) ''en'' ''category'' = c"
    by (simp add: meta_item_def numbered_post_def example_post_def)
  from c n z
    gen_tasks_posts_selects [OF c n z, of seven_matching "''en''"]
    gen_tasks_posts_selects [OF c n z, of "[numbered_post ''y'' ''blog'']" "''en''"]
  show ?thesis
    by (simp add: m seven_matching_def)
qed

section \<open>Episodes without a title or a permalink\<close>

text \<open>
  Claim C6, as the code has it. Rendering checks no episode: whenever it completes, the
  feed has exactly one entry for every episode of the list, and the entry of an episode
  carries the title and the permalink of that very episode, also when one of them is
  empty. The entries stand in the feed in the reverse order of the episodes, each new
  entry in front. Nothing is skipped and there is no warning to record.
\<close>

theorem entry_for_every_post:
  assumes "render_podcast_rss ext cfg lang posts output_name feed_url = Inr doc"
  shows "length (fg_entries doc) = length posts
         \<and> map (\<lambda>e. (fe_title e, fe_link e)) (fg_entries doc) =
             rev (map (\<lambda>p. (Some (post_title p lang),
                              Some (post_permalink p lang, ''alternate''))) posts)"
proof -
  from render_podcast_rss_parts [OF assms] obtain fg where
    fg: "fg_entries fg = []" "render_entries ext cfg lang posts fg = Inr doc"
    by blast
  from render_entries_pairs [OF fg(2)] fg(1)
  have pairs: "map (\<lambda>e. (fe_title e, fe_link e)) (fg_entries doc) =
             rev (map (\<lambda>p. (Some (post_title p lang),
                              Some (post_permalink p lang, ''alternate''))) posts)"
    by simp
  from arg_cong [OF pairs, of length] have "length (fg_entries doc) = length posts"
    by simp
  with pairs show ?thesis by blast
qed

theorem entry_for_every_post_witness:
  "\<not> isl (render_podcast_rss example_extern example_config ''en'' three_posts
        ''output/podcast.xml'' ''https://example.org/podcast.xml'')
   \<and> \<not> spec_well_formed ''en'' example_malformed
   \<and> length (fg_entries (projr (render_podcast_rss example_extern example_config ''en''
        three_posts ''output/podcast.xml'' ''https://example.org/podcast.xml''))) = 3
   \<and> map (\<lambda>e. (fe_title e, fe_link e))
        (fg_entries (projr (render_podcast_rss example_extern example_config ''en''
           three_posts ''output/podcast.xml'' ''https://example.org/podcast.xml''))) =
       [(Some ''Episode 4'', Some (''https://example.org/ep4/'', ''alternate'')),
        (Some ''Episode 3'', Some ([], ''alternate'')),
        (Some ''Episode 1'', Some (''https://example.org/ep1/'', ''alternate''))]"
proof -
  note r = three_posts_rendered
  from r have i: "\<not> isl (render_podcast_rss example_extern example_config ''en''
        three_posts ''output/podcast.xml'' ''https://example.org/podcast.xml'')"
    by (metis sum.disc(2))
  have m: "\<not> spec_well_formed ''en'' example_malformed"
    by (simp add: spec_well_formed_def example_posts)
  have l: "length three_posts = 3"
    by (simp add: three_posts_def)
  have p: "rev (map (\<lambda>p. (Some (post_title p ''en''),
                           Some (post_permalink p ''en'', ''alternate''))) three_posts) =
       [(Some ''Episode 4'', Some (''https://example.org/ep4/'', ''alternate'')),
        (Some ''Episode 3'', Some ([], ''alternate'')),
        (Some ''Episode 1'', Some (''https://example.org/ep1/'', ''alternate''))]"
    by (simp add: example_posts)
  from i m l p entry_for_every_post [OF r] show ?thesis by simp
qed

text \<open>
  Claim C6 as stated, one entry for each well-formed episode only: of the three
  episodes, two are well-formed, and the feed has three entries.
\<close>

theorem malformed_skipped_counterexample:
  "length (filter (spec_well_formed ''en'') three_posts) = 2
   \<and> map_sum id (length \<circ> fg_entries)
        (render_podcast_rss example_extern example_config ''en'' three_posts
           ''output/podcast.xml'' ''https://example.org/podcast.xml'') = Inr 3"
  by (simp add: spec_well_formed_def render_defs example_posts example_config_at)

section \<open>The date of an entry\<close>

text \<open>
  Claim C7. A date without a zone is to get the site's default zone. In the code the
  episode whose date carries no zone ends the rendering with \<^verbatim>\<open>NameError\<close>: the name
  \<^verbatim>\<open>site\<close> is not bound where \<open>render_podcast_rss\<close> reads the zone from it.
\<close>

theorem render_naive_date_raises:
  "render_podcast_rss example_extern example_config ''en'' [example_naive]
     ''output/podcast.xml'' ''https://example.org/podcast.xml'' = Inl (NameError ''site'')"
  by (simp add: render_defs example_posts example_config_at load_global_unbound)

section \<open>The author of the channel\<close>

text \<open>
  Claim C8. The author of the channel is all of the override or all of the site's pair:
  when \<^verbatim>\<open>PODCAST_CHANNEL_AUTHOR\<close> is set to a true value the feed's author is exactly
  that value, and otherwise it is exactly the pair of the site's author name for the
  language and the site's e-mail address. The two are never mixed.
\<close>

theorem channel_author_whole:
  assumes "render_podcast_rss ext cfg lang posts output_name feed_url = Inr doc"
    and "cfg ''PODCAST_CHANNEL_AUTHOR'' = Some override"
  shows "(truthy override \<longrightarrow> fg_author doc = Some override)
         \<and> (\<not> truthy override \<longrightarrow>
              (\<exists>s name email. cfg ''BLOG_AUTHOR'' = Some s \<and> call_setting s lang = Inr name
                 \<and> cfg ''BLOG_EMAIL'' = Some email
                 \<and> fg_author doc = Some (PyDict [(''name'', name), (''email'', email)])))"
proof -
  from render_podcast_rss_parts [OF assms(1)] obtain fg author where
    a: "channel_author cfg lang = Inr author" and f: "fg_author fg = Some author" and
    r: "render_entries ext cfg lang posts fg = Inr doc"
    by blast
  from render_entries_result [OF r] f have d: "fg_author doc = Some author"
    by auto
  from a assms(2) d show ?thesis
    by (auto simp: channel_author_def py_or_def getitem_def bindE_def
        split: sum.splits option.splits if_splits)
qed

theorem channel_author_whole_witness:
  "\<not> isl (render_podcast_rss example_extern name_only_config ''en'' [example_episode]
        ''output/podcast.xml'' ''https://example.org/podcast.xml'')
   \<and> name_only_config ''PODCAST_CHANNEL_AUTHOR'' = Some (PyDict [(''name'', PyStr ''Host'')])
   \<and> name_only_config ''BLOG_EMAIL'' = Some (PyStr ''jo@example.org'')
   \<and> fg_author (projr (render_podcast_rss example_extern name_only_config ''en''
        [example_episode] ''output/podcast.xml'' ''https://example.org/podcast.xml''))
       = Some (PyDict [(''name'', PyStr ''Host'')])
   \<and> \<not> isl (render_podcast_rss example_extern example_config ''en'' [example_episode]
        ''output/podcast.xml'' ''https://example.org/podcast.xml'')
   \<and> example_config ''PODCAST_CHANNEL_AUTHOR'' = Some PyNone
   \<and> fg_author (projr (render_podcast_rss example_extern example_config ''en''
        [example_episode] ''output/podcast.xml'' ''https://example.org/podcast.xml''))
       = Some (PyDict [(''name'', PyStr ''Jo''), (''email'', PyStr ''jo@example.org'')])"
proof -
  note r1 = name_only_feed_rendered
  note r2 = example_feed_rendered
  have o1: "name_only_config ''PODCAST_CHANNEL_AUTHOR''
              = Some (PyDict [(''name'', PyStr ''Host'')])"
    by (simp add: name_only_config_def)
  have o2: "example_config ''PODCAST_CHANNEL_AUTHOR'' = Some PyNone"
    by (simp add: example_config_at)
  have e: "name_only_config ''BLOG_EMAIL'' = Some (PyStr ''jo@example.org'')"
    by (simp add: name_only_config_def example_config_at)
  from r1 have i1: "\<not> isl (render_podcast_rss example_extern name_only_config ''en''
        [example_episode] ''output/podcast.xml'' ''https://example.org/podcast.xml'')"
    by (metis sum.disc(2))
  from r2 have i2: "\<not> isl (render_podcast_rss example_extern example_config ''en''
        [example_episode] ''output/podcast.xml'' ''https://example.org/podcast.xml'')"
    by (metis sum.disc(2))
  from channel_author_whole [OF r1 o1] have a1:
    "fg_author (projr (render_podcast_rss example_extern name_only_config ''en''
        [example_episode] ''output/podcast.xml'' ''https://example.org/podcast.xml''))
       = Some (PyDict [(''name'', PyStr ''Host'')])"
    by simp
  from channel_author_whole [OF r2 o2] have a2:
    "fg_author (projr (render_podcast_rss example_extern example_config ''en''
        [example_episode] ''output/podcast.xml'' ''https://example.org/podcast.xml''))
       = Some (PyDict [(''name'', PyStr ''Jo''), (''email'', PyStr ''jo@example.org'')])"
    by (auto simp: example_config_at)
  from i1 o1 e a1 i2 o2 a2 show ?thesis by blast
qed

section \<open>Required channel fields\<close>

text \<open>
  Claim C9, as the code has it. \<open>set_site\<close> checks no channel field: for every site
  configuration that sets \<^verbatim>\<open>TRANSLATIONS\<close> it completes without an error. A title with
  neither an override nor the site-wide \<^verbatim>\<open>BLOG_TITLE\<close> is met only when the feed is
  rendered, which then raises \<^verbatim>\<open>KeyError\<close>.
\<close>

theorem set_site_checks_nothing:
  assumes "site_config ''TRANSLATIONS'' = Some tr"
  shows "\<exists>cfg. set_site site_config = Inr cfg
           \<and> (site_config ''PODCAST_CHANNEL_TITLE'' = None \<and> site_config ''BLOG_TITLE'' = None
                \<longrightarrow> render_podcast_rss ext cfg lang posts output_name feed_url
                      = Inl (KeyError ''BLOG_TITLE''))"
  by (simp add: set_site_result [of site_config tr, OF assms] title_missing
      render_podcast_rss_def)

theorem set_site_checks_nothing_witness:
  "bare_site_config ''TRANSLATIONS'' = Some example_translations
   \<and> bare_site_config ''PODCAST_CHANNEL_TITLE'' = None
   \<and> bare_site_config ''BLOG_TITLE'' = None
   \<and> \<not> isl (set_site bare_site_config)
   \<and> render_podcast_rss example_extern (projr (set_site bare_site_config)) ''en''
        [example_episode] ''output/podcast.xml'' ''https://example.org/podcast.xml''
      = Inl (KeyError ''BLOG_TITLE'')"
proof -
  have t: "bare_site_config ''TRANSLATIONS'' = Some example_translations"
    by (simp add: bare_site_config_def)
  have n: "bare_site_config ''PODCAST_CHANNEL_TITLE'' = None"
          "bare_site_config ''BLOG_TITLE'' = None"
    by (simp_all add: bare_site_config_def)
  from n t set_site_checks_nothing [of bare_site_config example_translations
      example_extern "''en''" "[example_episode]"
      "''output/podcast.xml''" "''https://example.org/podcast.xml''", OF t]
  show ?thesis
    by auto
qed

text \<open>
  Claim C9 as stated, a configuration error at initialization: the site configuration
  that sets the languages only has no title override and no \<^verbatim>\<open>BLOG_TITLE\<close>, and
  \<open>set_site\<close> returns a configuration for it.
\<close>

theorem set_site_raises_counterexample:
  "bare_site_config ''PODCAST_CHANNEL_TITLE'' = None
   \<and> bare_site_config ''BLOG_TITLE'' = None
   \<and> \<not> isl (set_site bare_site_config)"
  by (simp add: bare_site_config_def set_site_def getitem_def default_config_def
      map_add_def Let_def)

section \<open>The path of the feed for a language\<close>

text \<open>
  Claim C10. For a configured language, \<open>rss_path\<close> returns the translation prefix of
  the language and the configured \<^verbatim>\<open>PODCAST_RSS_PATH\<close>, in that order, without the
  components that are false; the result has no empty segment, and for a language whose
  prefix is the empty string only the feed's file name is left.
\<close>

theorem rss_path_components:
  assumes "config ''TRANSLATIONS'' = Some (PyDict tr)"
    and "map_of tr lang = Some prefix"
    and "config ''PODCAST_RSS_PATH'' = Some path"
  shows "rss_path config name lang = Inr (filter truthy [prefix, path])
         \<and> PyStr [] \<notin> set (filter truthy [prefix, path])
         \<and> (prefix = PyStr [] \<longrightarrow> rss_path config name lang = Inr (filter truthy [path]))"
  using assms by (auto simp: rss_path_def getitem_def)

theorem rss_path_components_witness:
  "example_config ''TRANSLATIONS'' = Some (PyDict [(''en'', PyStr []), (''de'', PyStr ''de'')])
   \<and> map_of [(''en'', PyStr []), (''de'', PyStr ''de'')] ''en'' = Some (PyStr [])
   \<and> example_config ''PODCAST_RSS_PATH'' = Some (PyStr ''podcast.xml'')
   \<and> rss_path example_config ''podcast_rss'' ''en'' = Inr [PyStr ''podcast.xml'']"
proof -
  have t: "example_config ''TRANSLATIONS''
             = Some (PyDict [(''en'', PyStr []), (''de'', PyStr ''de'')])"
    by (simp add: example_config_at example_translations_def)
  have l: "map_of [(''en'', PyStr []), (''de'', PyStr ''de'')] ''en'' = Some (PyStr [])"
    by simp
  have p: "example_config ''PODCAST_RSS_PATH'' = Some (PyStr ''podcast.xml'')"
    by (simp add: example_config_at)
  from t l p rss_path_components [OF t l p, of "''podcast_rss''"] show ?thesis
    by simp
qed

end
